theory Spec2Isabelle
  imports Complex_Main "HOL-Library.Word"
begin

section \<open>JavaScript values\<close>

text \<open>
  A JavaScript number is an IEEE double. A finite double is modelled by the rational number it
  denotes (rounding to 53 bits and overflow are not modelled); the three special values are
  kept apart, since \<open>isNaN\<close> and \<open>Math.round\<close> treat them differently.
\<close>

datatype jsnum = Finite rat | NaN | PosInfinity | NegInfinity

definition isNaN :: "jsnum \<Rightarrow> bool" where
  "isNaN x = (x = NaN)"

text \<open>\<open>Math.round\<close>: the nearest integer, ties towards plus infinity.\<close>

fun Math_round :: "jsnum \<Rightarrow> jsnum" where
  "Math_round (Finite q) = Finite (of_int \<lfloor>q + 1 / 2\<rfloor>)"
| "Math_round NaN = NaN"
| "Math_round PosInfinity = PosInfinity"
| "Math_round NegInfinity = NegInfinity"

text \<open>\<open>Number.isInteger\<close>.\<close>

fun isInteger :: "jsnum \<Rightarrow> bool" where
  "isInteger (Finite q) = (of_int \<lfloor>q\<rfloor> = q)"
| "isInteger NaN = False"
| "isInteger PosInfinity = False"
| "isInteger NegInfinity = False"

text \<open>
  Reading \<open>xs[i]\<close>: out of range the value is \<open>undefined\<close> (\<open>None\<close>), nothing is thrown.
\<close>

definition js_index :: "'a list \<Rightarrow> nat \<Rightarrow> 'a option" where
  "js_index xs i = (if i < length xs then Some (xs ! i) else None)"

text \<open>\<open>Math.round(undefined)\<close> is \<open>NaN\<close>.\<close>

definition round_undefined :: "jsnum option \<Rightarrow> jsnum" where
  "round_undefined v = (case v of None \<Rightarrow> NaN | Some x \<Rightarrow> Math_round x)"

subsection \<open>Strings\<close>

text \<open>
  A JavaScript string is a sequence of UTF-16 code units. Text that comes from outside (the
  user's input, the providers' answers) is a \<open>jsstring\<close>; \<open>ascii\<close> embeds a literal of the
  source in it. The labels and messages the program itself writes are kept as literals of
  type \<open>string\<close>, one \<open>char\<close> per code unit.
\<close>

type_synonym code_unit = "16 word"

type_synonym jsstring = "code_unit list"

definition ascii :: "string \<Rightarrow> jsstring" where
  "ascii s = map of_char s"

text \<open>
  The code units \<open>trim\<close> and \<open>parseFloat\<close> skip: the white space of the language (tab,
  vertical tab, form feed, space, no-break space, the byte order mark and the other space
  separators of Unicode) and its line terminators (line feed, carriage return, line and
  paragraph separator).
\<close>

definition isWhiteSpace :: "code_unit \<Rightarrow> bool" where
  "isWhiteSpace c =
     (c \<in> set [0x0009, 0x000A, 0x000B, 0x000C, 0x000D, 0x0020, 0x00A0, 0x1680,
               0x2000, 0x2001, 0x2002, 0x2003, 0x2004, 0x2005, 0x2006, 0x2007,
               0x2008, 0x2009, 0x200A, 0x2028, 0x2029, 0x202F, 0x205F, 0x3000, 0xFEFF])"

definition trimStart :: "jsstring \<Rightarrow> jsstring" where
  "trimStart s = dropWhile isWhiteSpace s"

definition trim :: "jsstring \<Rightarrow> jsstring" where
  "trim s = rev (trimStart (rev (trimStart s)))"

text \<open>\<open>s.split(sep)\<close> for a separator of one code unit.\<close>

fun split :: "code_unit \<Rightarrow> jsstring \<Rightarrow> jsstring list" where
  "split sep [] = [[]]"
| "split sep (c # cs) =
     (if c = sep then [] # split sep cs
      else (case split sep cs of [] \<Rightarrow> [[c]] | p # ps \<Rightarrow> (c # p) # ps))"

fun startsWith :: "'a list \<Rightarrow> 'a list \<Rightarrow> bool" where
  "startsWith s [] = True"
| "startsWith [] (p # ps) = False"
| "startsWith (c # cs) (p # ps) = (c = p \<and> startsWith cs ps)"

text \<open>
  A string is well formed when it has no lone surrogate: every high surrogate is followed by
  a low one, and no low surrogate stands elsewhere. \<open>encodeURIComponent\<close> throws a
  \<open>URIError\<close> on a string that is not.
\<close>

definition isHighSurrogate :: "code_unit \<Rightarrow> bool" where
  "isHighSurrogate c = (0xD800 \<le> c \<and> c \<le> 0xDBFF)"

definition isLowSurrogate :: "code_unit \<Rightarrow> bool" where
  "isLowSurrogate c = (0xDC00 \<le> c \<and> c \<le> 0xDFFF)"

fun isWellFormed :: "jsstring \<Rightarrow> bool" where
  "isWellFormed [] = True"
| "isWellFormed [c] = (\<not> isHighSurrogate c \<and> \<not> isLowSurrogate c)"
| "isWellFormed (c # d # cs) =
     (if isHighSurrogate c then isLowSurrogate d \<and> isWellFormed cs
      else \<not> isLowSurrogate c \<and> isWellFormed (d # cs))"

text \<open>\<open>s.includes(pat)\<close>.\<close>

fun includes_str :: "'a list \<Rightarrow> 'a list \<Rightarrow> bool" where
  "includes_str [] pat = (pat = [])"
| "includes_str (c # cs) pat = (startsWith (c # cs) pat \<or> includes_str cs pat)"

text \<open>
  \<open>toLowerCase\<close> on a label: the capital letters of ASCII and of Latin-1 (all of
  \<open>0xC0\<close> to \<open>0xDE\<close> but the multiplication sign) move up by 32, every other code unit a
  \<open>char\<close> can hold stays.
\<close>

definition toLowerCase :: "string \<Rightarrow> string" where
  "toLowerCase s =
     map (\<lambda>c. if (65 \<le> (of_char c :: nat) \<and> (of_char c :: nat) \<le> 90) \<or>
                  (192 \<le> (of_char c :: nat) \<and> (of_char c :: nat) \<le> 222 \<and>
                   (of_char c :: nat) \<noteq> 215)
               then char_of (of_char c + (32 :: nat)) else c) s"

subsection \<open>parseFloat\<close>

definition isDigit :: "code_unit \<Rightarrow> bool" where
  "isDigit c = (of_char CHR ''0'' \<le> c \<and> c \<le> of_char CHR ''9'')"

definition digitsValue :: "jsstring \<Rightarrow> nat" where
  "digitsValue ds = foldl (\<lambda>a c. 10 * a + (unat c - 48)) 0 ds"

text \<open>
  The exponent part \<open>e\<close>, \<open>e+\<close> or \<open>e-\<close> followed by at least one digit; anything else
  after the mantissa is ignored, as \<open>parseFloat\<close> reads the longest prefix that is a literal.
\<close>

definition exponentPart :: "jsstring \<Rightarrow> int" where
  "exponentPart r =
     (case r of
        [] \<Rightarrow> 0
      | e # r1 \<Rightarrow>
          if e = of_char CHR ''e'' \<or> e = of_char CHR ''E'' then
            (case r1 of
               [] \<Rightarrow> 0
             | s # r2 \<Rightarrow>
                 if s = of_char CHR ''+'' then
                   (if takeWhile isDigit r2 = [] then 0
                    else int (digitsValue (takeWhile isDigit r2)))
                 else if s = of_char CHR ''-'' then
                   (if takeWhile isDigit r2 = [] then 0
                    else - int (digitsValue (takeWhile isDigit r2)))
                 else if takeWhile isDigit r1 = [] then 0
                 else int (digitsValue (takeWhile isDigit r1)))
          else 0)"

definition scale10 :: "rat \<Rightarrow> int \<Rightarrow> rat" where
  "scale10 m e = (if 0 \<le> e then m * 10 ^ nat e else m / 10 ^ nat (- e))"

text \<open>The unsigned part of the literal: \<open>Infinity\<close>, or digits with an optional fraction.\<close>

definition parseUnsigned :: "jsstring \<Rightarrow> jsnum" where
  "parseUnsigned u =
     (if startsWith u (ascii ''Infinity'') then PosInfinity
      else
        let ip = takeWhile isDigit u;
            r1 = dropWhile isDigit u;
            fp = (case r1 of
                    [] \<Rightarrow> []
                  | d # r \<Rightarrow> if d = of_char CHR ''.'' then takeWhile isDigit r else []);
            r2 = (case r1 of
                    [] \<Rightarrow> []
                  | d # r \<Rightarrow> if d = of_char CHR ''.'' then dropWhile isDigit r else r1)
        in if ip = [] \<and> fp = [] then NaN
           else Finite (scale10 (of_nat (digitsValue ip)
                                 + of_nat (digitsValue fp) / 10 ^ length fp)
                                (exponentPart r2)))"

fun negate :: "jsnum \<Rightarrow> jsnum" where
  "negate (Finite q) = Finite (- q)"
| "negate NaN = NaN"
| "negate PosInfinity = NegInfinity"
| "negate NegInfinity = PosInfinity"

definition parseFloat :: "jsstring \<Rightarrow> jsnum" where
  "parseFloat s =
     (case trimStart s of
        [] \<Rightarrow> NaN
      | c # r \<Rightarrow>
          if c = of_char CHR ''+'' then parseUnsigned r
          else if c = of_char CHR ''-'' then negate (parseUnsigned r)
          else parseUnsigned (c # r))"

text \<open>\<open>parseFloat(undefined)\<close> reads the text \<open>undefined\<close>, which is \<open>NaN\<close>.\<close>

definition parseFloat_undefined :: "jsstring option \<Rightarrow> jsnum" where
  "parseFloat_undefined v = (case v of None \<Rightarrow> NaN | Some s \<Rightarrow> parseFloat s)"

section \<open>Errors and observable effects\<close>

text \<open>
  Every \<open>throw\<close> and every rejected promise of the services is a value of \<open>js_error\<close>;
  a function that can throw returns \<open>js_error + 'a\<close>, with \<open>Inl\<close> for the error.
\<close>

datatype js_error =
    CityNotFound        \<comment> \<open>\<open>new Error("City not found")\<close>\<close>
  | WeatherApiError     \<comment> \<open>\<open>new Error("Weather API Error")\<close>\<close>
  | TransportError      \<comment> \<open>\<open>fetch\<close> or the provider's client rejected\<close>
  | SyntaxError         \<comment> \<open>\<open>res.json()\<close> or \<open>JSON.parse\<close> rejected the text\<close>
  | TypeError           \<comment> \<open>a property of \<open>undefined\<close> or \<open>null\<close> was read\<close>
  | URIError            \<comment> \<open>\<open>encodeURIComponent\<close> met a lone surrogate\<close>

text \<open>What a run does besides returning: calls of the services, requests sent, console output.\<close>

datatype event =
    CallSearchCity jsstring
  | GeocodingRequest jsstring
  | ForecastRequest "jsnum option" "jsnum option"
  | ConsoleError string

section \<open>Condition code translator\<close>

text \<open>
  \<open>wmoToCondition\<close>: the table is keyed by the code; a number that is not a key of the
  table (also \<open>NaN\<close>, a fraction, or \<open>undefined\<close>) finds nothing and gives \<open>Unknown\<close>.
\<close>

definition wmoMap :: "(int \<times> string) list" where
  "wmoMap =
     [(0, ''Clear Sky''),
      (1, ''Mainly Clear''), (2, ''Partly Cloudy''), (3, ''Overcast''),
      (45, ''Fog''), (48, ''Depositing Rime Fog''),
      (51, ''Light Drizzle''), (53, ''Moderate Drizzle''), (55, ''Dense Drizzle''),
      (56, ''Light Freezing Drizzle''), (57, ''Dense Freezing Drizzle''),
      (61, ''Slight Rain''), (63, ''Moderate Rain''), (65, ''Heavy Rain''),
      (66, ''Light Freezing Rain''), (67, ''Heavy Freezing Rain''),
      (71, ''Slight Snow''), (73, ''Moderate Snow''), (75, ''Heavy Snow''),
      (77, ''Snow Grains''),
      (80, ''Slight Rain Showers''), (81, ''Moderate Rain Showers''), (82, ''Violent Rain Showers''),
      (85, ''Slight Snow Showers''), (86, ''Heavy Snow Showers''),
      (95, ''Thunderstorm''), (96, ''Thunderstorm with Hail''), (99, ''Heavy Thunderstorm with Hail'')]"

definition wmoToCondition :: "jsnum option \<Rightarrow> string" where
  "wmoToCondition code =
     (case code of
        Some (Finite q) \<Rightarrow>
          (if of_int \<lfloor>q\<rfloor> = q
           then (case map_of wmoMap \<lfloor>q\<rfloor> of Some label \<Rightarrow> label | None \<Rightarrow> ''Unknown'')
           else ''Unknown'')
      | _ \<Rightarrow> ''Unknown'')"

section \<open>Geocoding: searchCity\<close>

record CitySearchResult =
  name :: jsstring
  location :: jsstring
  lat :: "jsnum option"
  lng :: "jsnum option"

text \<open>One element of \<open>data.results\<close>, with the five properties \<open>searchCity\<close> reads.\<close>

record geo_item =
  item_name :: jsstring
  item_admin1 :: "jsstring option"
  item_country :: "jsstring option"
  item_latitude :: "jsnum option"
  item_longitude :: "jsnum option"

text \<open>
  What the geocoding provider does with a request, as far as \<open>searchCity\<close> can tell:
  \<^item> \<open>GeoFetchRejected\<close>: \<open>fetch\<close> rejects (no network, provider down);
  \<^item> \<open>GeoBodyNotJson\<close>: \<open>res.json()\<close> rejects;
  \<^item> \<open>GeoResultsFalsy\<close>: the body is JSON and \<open>data.results\<close> is absent or falsy;
  \<^item> \<open>GeoResultsUnusable\<close>: \<open>data\<close> is \<open>null\<close>, or \<open>data.results\<close> is truthy and not an
    array of objects, so that reading it throws a \<open>TypeError\<close>;
  \<^item> \<open>GeoResults items\<close>: \<open>data.results\<close> is the array \<open>items\<close>.
\<close>

datatype geo_response =
    GeoFetchRejected
  | GeoBodyNotJson
  | GeoResultsFalsy
  | GeoResultsUnusable
  | GeoResults "geo_item list"

text \<open>The object built for one item; \<open>item.admin1 || ''\<close> and the template string.\<close>

definition toCitySearchResult :: "geo_item \<Rightarrow> CitySearchResult" where
  "toCitySearchResult item =
     \<lparr>name = item_name item,
      location =
        (case item_admin1 item of None \<Rightarrow> [] | Some a \<Rightarrow> a) @ ascii '', '' @
        (case item_country item of None \<Rightarrow> ascii ''undefined'' | Some c \<Rightarrow> c),
      lat = item_latitude item,
      lng = item_longitude item\<rparr>"

text \<open>
  The body of the \<open>try\<close> block of \<open>searchCity\<close>: building the URL throws on a query that is
  not well formed, before any request; otherwise the request is sent and the response read.
  The provider is the function \<open>geo\<close> from the query to its response.
\<close>

definition searchCity_try ::
  "(jsstring \<Rightarrow> geo_response) \<Rightarrow> jsstring
     \<Rightarrow> event list \<times> (js_error + CitySearchResult list)" where
  "searchCity_try geo query =
     (if \<not> isWellFormed query then ([], Inl URIError)
      else
        (case geo query of
           GeoFetchRejected \<Rightarrow> ([GeocodingRequest query], Inl TransportError)
         | GeoBodyNotJson \<Rightarrow> ([GeocodingRequest query], Inl SyntaxError)
         | GeoResultsFalsy \<Rightarrow> ([GeocodingRequest query], Inr [])
         | GeoResultsUnusable \<Rightarrow> ([GeocodingRequest query], Inl TypeError)
         | GeoResults items \<Rightarrow> ([GeocodingRequest query], Inr (map toCitySearchResult items))))"

text \<open>
  \<open>searchCity\<close>: the guard returns before the \<open>try\<close> block; the \<open>catch\<close> logs and returns
  the empty list.
\<close>

definition searchCity ::
  "(jsstring \<Rightarrow> geo_response) \<Rightarrow> jsstring
     \<Rightarrow> event list \<times> (js_error + CitySearchResult list)" where
  "searchCity geo query =
     (if query = [] \<or> length query < 2 then ([], Inr [])
      else
        (case searchCity_try geo query of
           (evs, Inr results) \<Rightarrow> (evs, Inr results)
         | (evs, Inl e) \<Rightarrow> (evs @ [ConsoleError ''Geocoding failed''], Inr [])))"

section \<open>Weather data: getWeatherData\<close>

subsection \<open>Step 1: determine coordinates\<close>

text \<open>The local variables \<open>lat\<close>, \<open>lng\<close>, \<open>city\<close>, \<open>country\<close> after step 1.\<close>

record coordinates =
  loc_lat :: "jsnum option"
  loc_lng :: "jsnum option"
  loc_city :: jsstring
  loc_country :: jsstring

text \<open>The test of the inner \<open>if\<close>: both of the first two trimmed parts parse as numbers.\<close>

definition isCoordinatePair :: "jsstring \<Rightarrow> bool" where
  "isCoordinatePair locationInput =
     (of_char CHR '','' \<in> set locationInput \<and>
      (let parts = map trim (split (of_char CHR '','') locationInput)
       in \<not> isNaN (parseFloat_undefined (js_index parts 0)) \<and>
          \<not> isNaN (parseFloat_undefined (js_index parts 1))))"

text \<open>
  The search branch, which the source writes out twice with the same text (for a
  comma-separated name and for a plain name).
\<close>

definition searchBranch ::
  "(jsstring \<Rightarrow> geo_response) \<Rightarrow> jsstring \<Rightarrow> event list \<times> (js_error + coordinates)" where
  "searchBranch geo locationInput =
     (case searchCity geo locationInput of
        (evs, Inl e) \<Rightarrow> (CallSearchCity locationInput # evs, Inl e)
      | (evs, Inr []) \<Rightarrow> (CallSearchCity locationInput # evs, Inl CityNotFound)
      | (evs, Inr (first # rest)) \<Rightarrow>
          (CallSearchCity locationInput # evs,
           Inr \<lparr>loc_lat = lat first, loc_lng = lng first,
                loc_city = name first, loc_country = location first\<rparr>))"

definition determineCoordinates ::
  "(jsstring \<Rightarrow> geo_response) \<Rightarrow> jsstring \<Rightarrow> event list \<times> (js_error + coordinates)" where
  "determineCoordinates geo locationInput =
     (if of_char CHR '','' \<in> set locationInput then
        (let parts = map trim (split (of_char CHR '','') locationInput)
         in if \<not> isNaN (parseFloat_undefined (js_index parts 0)) \<and>
               \<not> isNaN (parseFloat_undefined (js_index parts 1))
            then ([], Inr \<lparr>loc_lat = Some (parseFloat_undefined (js_index parts 0)),
                           loc_lng = Some (parseFloat_undefined (js_index parts 1)),
                           loc_city = ascii ''Current Location'',
                           loc_country = []\<rparr>)
            else searchBranch geo locationInput)
      else searchBranch geo locationInput)"

subsection \<open>Step 2: the forecast request\<close>

text \<open>
  The raw payload: one object per granularity, each a group of parallel arrays. Nothing makes
  the arrays of one group equally long; every array is read by position with \<open>js_index\<close>.
  The elements are numbers and strings; an element that is \<open>null\<close> is not modelled.
\<close>

record current_raw =
  cur_temperature_2m :: jsnum
  cur_relative_humidity_2m :: jsnum
  cur_apparent_temperature :: jsnum
  cur_weather_code :: jsnum
  cur_surface_pressure :: jsnum
  cur_wind_speed_10m :: jsnum

record hourly_raw =
  hourly_time :: "jsstring list"
  hourly_temperature_2m :: "jsnum list"

record daily_raw =
  daily_time :: "jsstring list"
  daily_weather_code :: "jsnum list"
  daily_temperature_2m_max :: "jsnum list"
  daily_temperature_2m_min :: "jsnum list"
  daily_sunrise :: "jsstring list"
  daily_sunset :: "jsstring list"
  daily_uv_index_max :: "jsnum list"

record payload =
  raw_current :: current_raw
  raw_hourly :: hourly_raw
  raw_daily :: daily_raw

text \<open>
  What the forecast provider does with a request:
  \<^item> \<open>FcFetchRejected\<close>: \<open>fetch\<close> rejects;
  \<^item> \<open>FcNotOk\<close>: the status is not a success (\<open>!res.ok\<close>);
  \<^item> \<open>FcBodyNotJson\<close>: \<open>res.json()\<close> rejects;
  \<^item> \<open>FcShapeless\<close>: the body is JSON and lacks \<open>current\<close>, \<open>hourly\<close>, \<open>daily\<close> or one of
    their arrays, so that reading it throws a \<open>TypeError\<close>;
  \<^item> \<open>FcPayload p\<close>: the body is the payload \<open>p\<close>.
\<close>

datatype forecast_response =
    FcFetchRejected
  | FcNotOk
  | FcBodyNotJson
  | FcShapeless
  | FcPayload payload

subsection \<open>Step 3: map to the internal format\<close>

record HourlyForecast =
  time :: jsstring
  temp :: jsnum

record DailyForecast =
  day :: jsstring
  high :: jsnum
  low :: jsnum
  condition_day :: string

record WeatherData =
  city :: jsstring
  country :: jsstring
  currentTemp :: jsnum
  condition :: string
  feelsLike :: jsnum
  humidity :: jsnum
  windSpeed :: jsnum
  pressure :: jsnum
  uvIndex :: jsnum
  sunrise :: jsstring
  sunset :: jsstring
  hourly :: "HourlyForecast list"
  daily :: "DailyForecast list"
  groundingSource :: "string option"

text \<open>
  The host's date formatting, which depends on its locale and time zone: \<open>hourLabel\<close> is
  \<open>new Date(s).toLocaleTimeString([], {hour: 'numeric'})\<close>, \<open>weekdayLabel\<close> is
  \<open>new Date(s).toLocaleDateString('en-US', {weekday: 'short'})\<close> and \<open>clockLabel\<close> is
  \<open>new Date(s).toLocaleTimeString([], {hour: '2-digit', minute: '2-digit'})\<close>.
\<close>

record host =
  hourLabel :: "jsstring \<Rightarrow> jsstring"
  weekdayLabel :: "jsstring \<Rightarrow> jsstring"
  clockLabel :: "jsstring \<Rightarrow> jsstring"

text \<open>\<open>new Date(undefined)\<close> is an invalid date, which every formatter prints as such.\<close>

definition dateLabel :: "(jsstring \<Rightarrow> jsstring) \<Rightarrow> jsstring option \<Rightarrow> jsstring" where
  "dateLabel fmt v = (case v of None \<Rightarrow> ascii ''Invalid Date'' | Some s \<Rightarrow> fmt s)"

text \<open>
  The hourly loop \<open>for (i = currentHourIndex; i < currentHourIndex + 24; i++)\<close>: an entry is
  pushed when \<open>hourly.time[i]\<close> is truthy, that is defined and not the empty string.
\<close>

definition hourlyEntry :: "host \<Rightarrow> hourly_raw \<Rightarrow> jsstring \<Rightarrow> nat \<Rightarrow> HourlyForecast" where
  "hourlyEntry H hr t i =
     \<lparr>time = hourLabel H t,
      temp = round_undefined (js_index (hourly_temperature_2m hr) i)\<rparr>"

function hourlyLoop ::
  "host \<Rightarrow> hourly_raw \<Rightarrow> nat \<Rightarrow> nat \<Rightarrow> HourlyForecast list \<Rightarrow> HourlyForecast list" where
  "hourlyLoop H hr i stop hourlyForecast =
     (if i < stop then
        hourlyLoop H hr (i + 1) stop
          (case js_index (hourly_time hr) i of
             None \<Rightarrow> hourlyForecast
           | Some t \<Rightarrow>
               if t \<noteq> [] then hourlyForecast @ [hourlyEntry H hr t i]
               else hourlyForecast)
      else hourlyForecast)"
  by pat_completeness auto
termination
  by (relation "measure (\<lambda>(H, hr, i, stop, acc). stop - i)") auto

declare hourlyLoop.simps [simp del]

text \<open>The daily loop \<open>for (i = 0; i < 5; i++)\<close>: an entry is pushed at every turn.\<close>

definition dailyEntry :: "host \<Rightarrow> daily_raw \<Rightarrow> nat \<Rightarrow> DailyForecast" where
  "dailyEntry H dr i =
     \<lparr>day = dateLabel (weekdayLabel H) (js_index (daily_time dr) i),
      high = round_undefined (js_index (daily_temperature_2m_max dr) i),
      low = round_undefined (js_index (daily_temperature_2m_min dr) i),
      condition_day = wmoToCondition (js_index (daily_weather_code dr) i)\<rparr>"

function dailyLoop ::
  "host \<Rightarrow> daily_raw \<Rightarrow> nat \<Rightarrow> DailyForecast list \<Rightarrow> DailyForecast list" where
  "dailyLoop H dr i dailyForecast =
     (if i < 5 then dailyLoop H dr (i + 1) (dailyForecast @ [dailyEntry H dr i])
      else dailyForecast)"
  by pat_completeness auto
termination
  by (relation "measure (\<lambda>(H, dr, i, acc). 5 - i)") auto

declare dailyLoop.simps [simp del]

text \<open>
  The mapping of a payload, with \<open>currentHourIndex\<close> the hour of the host's clock
  (\<open>new Date().getHours()\<close>) and \<open>loc\<close> the variables of step 1.
\<close>

definition mapToInternalFormat :: "host \<Rightarrow> coordinates \<Rightarrow> nat \<Rightarrow> payload \<Rightarrow> WeatherData" where
  "mapToInternalFormat H loc currentHourIndex data =
     (let current = raw_current data;
          hourly_src = raw_hourly data;
          daily_src = raw_daily data;
          hourlyForecast = hourlyLoop H hourly_src currentHourIndex (currentHourIndex + 24) [];
          dailyForecast = dailyLoop H daily_src 0 [];
          sunriseTime = dateLabel (clockLabel H) (js_index (daily_sunrise daily_src) 0);
          sunsetTime = dateLabel (clockLabel H) (js_index (daily_sunset daily_src) 0)
      in \<lparr>city = loc_city loc,
          country = loc_country loc,
          currentTemp = Math_round (cur_temperature_2m current),
          condition = wmoToCondition (Some (cur_weather_code current)),
          feelsLike = Math_round (cur_apparent_temperature current),
          humidity = cur_relative_humidity_2m current,
          windSpeed = Math_round (cur_wind_speed_10m current),
          pressure = Math_round (cur_surface_pressure current),
          uvIndex = round_undefined (js_index (daily_uv_index_max daily_src) 0),
          sunrise = sunriseTime,
          sunset = sunsetTime,
          hourly = hourlyForecast,
          daily = dailyForecast,
          groundingSource = Some ''Open-Meteo (National Weather Services)''\<rparr>)"

text \<open>
  Steps 2 and 3. \<open>lat.toString()\<close> throws before the request when a coordinate is
  \<open>undefined\<close>; an error inside the \<open>try\<close> block is logged and thrown again.
\<close>

definition fetchForecast ::
  "(jsnum \<Rightarrow> jsnum \<Rightarrow> forecast_response) \<Rightarrow> host \<Rightarrow> nat \<Rightarrow> coordinates
     \<Rightarrow> event list \<times> (js_error + WeatherData)" where
  "fetchForecast forecast H currentHourIndex loc =
     (case (loc_lat loc, loc_lng loc) of
        (Some la, Some lo) \<Rightarrow>
          (case forecast la lo of
             FcFetchRejected \<Rightarrow>
               ([ForecastRequest (Some la) (Some lo), ConsoleError ''Fetch weather error''],
                Inl TransportError)
           | FcNotOk \<Rightarrow>
               ([ForecastRequest (Some la) (Some lo), ConsoleError ''Fetch weather error''],
                Inl WeatherApiError)
           | FcBodyNotJson \<Rightarrow>
               ([ForecastRequest (Some la) (Some lo), ConsoleError ''Fetch weather error''],
                Inl SyntaxError)
           | FcShapeless \<Rightarrow>
               ([ForecastRequest (Some la) (Some lo), ConsoleError ''Fetch weather error''],
                Inl TypeError)
           | FcPayload data \<Rightarrow>
               ([ForecastRequest (Some la) (Some lo)],
                Inr (mapToInternalFormat H loc currentHourIndex data)))
      | _ \<Rightarrow> ([], Inl TypeError))"

text \<open>The providers and the host a run depends on.\<close>

record world =
  geocoding :: "jsstring \<Rightarrow> geo_response"
  forecasting :: "jsnum \<Rightarrow> jsnum \<Rightarrow> forecast_response"
  clockHour :: nat
  formats :: host

definition getWeatherData :: "world \<Rightarrow> jsstring \<Rightarrow> event list \<times> (js_error + WeatherData)" where
  "getWeatherData W locationInput =
     (case determineCoordinates (geocoding W) locationInput of
        (evs, Inl e) \<Rightarrow> (evs, Inl e)
      | (evs, Inr loc) \<Rightarrow>
          (case fetchForecast (forecasting W) (formats W) (clockHour W) loc of
             (evs2, r) \<Rightarrow> (evs @ evs2, r)))"

section \<open>AI enrichment\<close>

text \<open>
  A call of the generative-text client either throws (no key, transport failure, the
  provider rejects the request) or returns a response, of which only \<open>response.text\<close> is
  read; the text may be \<open>undefined\<close>.
\<close>

datatype 'a ai_reply = AiRejected | AiResponse "'a option"

text \<open>\<open>getQuickSummary\<close>: no \<open>try\<close> around the call; \<open>response.text || ""\<close>.\<close>

definition getQuickSummary ::
  "(WeatherData \<Rightarrow> jsstring ai_reply) \<Rightarrow> WeatherData \<Rightarrow> js_error + jsstring" where
  "getQuickSummary ai weather =
     (case ai weather of
        AiRejected \<Rightarrow> Inl TransportError
      | AiResponse None \<Rightarrow> Inr []
      | AiResponse (Some text) \<Rightarrow> Inr text)"

text \<open>The values \<open>JSON.parse\<close> returns.\<close>

datatype json =
    JNull
  | JBool bool
  | JNumber jsnum
  | JString jsstring
  | JArray "json list"
  | JObject "(jsstring \<times> json) list"

text \<open>
  The text of a deep-analysis response, told apart by what the source does with it: the empty
  string is falsy and replaced by \<open>"{}"\<close>; any other text is given to \<open>JSON.parse\<close>, which
  throws a \<open>SyntaxError\<close> (\<open>NotJson\<close>) or returns the value the text denotes (\<open>JsonText v\<close>).
\<close>

datatype response_text = EmptyText | NotJson | JsonText json

definition JSON_parse :: "response_text \<Rightarrow> js_error + json" where
  "JSON_parse t =
     (case t of
        EmptyText \<Rightarrow> Inl SyntaxError
      | NotJson \<Rightarrow> Inl SyntaxError
      | JsonText v \<Rightarrow> Inr v)"

text \<open>\<open>getDeepAnalysis\<close>: \<open>return JSON.parse(response.text || "{}")\<close>.\<close>

definition getDeepAnalysis ::
  "(WeatherData \<Rightarrow> response_text ai_reply) \<Rightarrow> WeatherData \<Rightarrow> js_error + json" where
  "getDeepAnalysis ai weather =
     (case ai weather of
        AiRejected \<Rightarrow> Inl TransportError
      | AiResponse None \<Rightarrow> JSON_parse (JsonText (JObject []))
      | AiResponse (Some EmptyText) \<Rightarrow> JSON_parse (JsonText (JObject []))
      | AiResponse (Some text) \<Rightarrow> JSON_parse text)"

text \<open>
  Reading a property of a parsed value, as the analysis panel reads \<open>analysis.advice\<close>:
  \<open>None\<close> is \<open>undefined\<close>. In an object with a repeated key the last one counts.
\<close>

definition getProperty :: "json \<Rightarrow> jsstring \<Rightarrow> json option" where
  "getProperty v key = (case v of JObject members \<Rightarrow> map_of (rev members) key | _ \<Rightarrow> None)"

section \<open>The application state\<close>

text \<open>
  The state hooks of \<open>App\<close> that the handlers below write, and two logs: the errors the
  handlers of \<open>App\<close> gave to \<open>console.error\<close>, and the promises that rejected with no
  handler. \<open>analysis\<close> is \<open>JNull\<close> for \<open>null\<close>.
\<close>

record app_state =
  query :: jsstring
  suggestions :: "CitySearchResult list"
  weather :: "WeatherData option"
  loading :: bool
  aiLoading :: bool
  analysis :: json
  quickSummary :: jsstring
  theme :: string
  isNightMode :: bool
  error :: "string option"
  console :: "js_error list"
  unhandledRejections :: "js_error list"

definition updateTheme :: "string \<Rightarrow> bool \<Rightarrow> app_state \<Rightarrow> app_state" where
  "updateTheme cond isNight st =
     (let st1 = st\<lparr>isNightMode := isNight\<rparr>;
          c = toLowerCase cond
      in if isNight then st1\<lparr>theme := ''from-slate-900 to-indigo-950''\<rparr>
         else if includes_str c ''rain'' \<or> includes_str c ''drizzle''
           then st1\<lparr>theme := ''from-blue-200 via-slate-200 to-gray-100''\<rparr>
         else if includes_str c ''storm'' \<or> includes_str c ''thunder''
           then st1\<lparr>theme := ''from-slate-400 via-slate-300 to-gray-200''\<rparr>
         else if includes_str c ''cloud'' \<or> includes_str c ''overcast''
           then st1\<lparr>theme := ''from-slate-200 via-gray-100 to-white''\<rparr>
         else if includes_str c ''snow'' \<or> includes_str c ''ice''
           then st1\<lparr>theme := ''from-blue-50 via-indigo-50 to-white''\<rparr>
         else if includes_str c ''fog'' \<or> includes_str c ''mist''
           then st1\<lparr>theme := ''from-gray-200 via-slate-100 to-white''\<rparr>
         else st1\<lparr>theme := ''from-sky-200 via-blue-100 to-white''\<rparr>)"

text \<open>
  \<open>fetchWeather\<close>, up to the point where every promise it started has settled. The summary
  is started with \<open>getQuickSummary(data).then(setQuickSummary)\<close> and not awaited: when it
  fulfils, the summary is stored; when it rejects, no handler runs.
\<close>

definition fetchWeather ::
  "world \<Rightarrow> (WeatherData \<Rightarrow> jsstring ai_reply) \<Rightarrow> jsstring \<Rightarrow> app_state \<Rightarrow> app_state" where
  "fetchWeather W ai place st =
     (let st1 = st\<lparr>loading := True, error := None, analysis := JNull,
                    suggestions := [], query := []\<rparr>
      in case snd (getWeatherData W place) of
           Inr data \<Rightarrow>
             (let st2 = st1\<lparr>weather := Some data\<rparr>;
                  nightTime = (clockHour W < 6 \<or> clockHour W > 20);
                  st3 = updateTheme (condition data) nightTime st2;
                  st4 = st3\<lparr>loading := False\<rparr>
              in case getQuickSummary ai data of
                   Inr summary \<Rightarrow> st4\<lparr>quickSummary := summary\<rparr>
                 | Inl e \<Rightarrow> st4\<lparr>unhandledRejections := unhandledRejections st4 @ [e]\<rparr>)
         | Inl e \<Rightarrow>
             st1\<lparr>error := Some ''Failed to fetch weather. Please try again.'',
                  loading := False\<rparr>)"

text \<open>\<open>handleDeepAnalysis\<close>: the \<open>catch\<close> logs the error, the \<open>finally\<close> clears the flag.\<close>

definition handleDeepAnalysis ::
  "(WeatherData \<Rightarrow> response_text ai_reply) \<Rightarrow> app_state \<Rightarrow> app_state" where
  "handleDeepAnalysis ai st =
     (case weather st of
        None \<Rightarrow> st
      | Some w \<Rightarrow>
          (let st1 = st\<lparr>aiLoading := True\<rparr>
           in case getDeepAnalysis ai w of
                Inr result \<Rightarrow> st1\<lparr>analysis := result, aiLoading := False\<rparr>
              | Inl e \<Rightarrow> st1\<lparr>console := console st1 @ [e], aiLoading := False\<rparr>))"

text \<open>The initial values of the state hooks.\<close>

definition initialState :: app_state where
  "initialState =
     \<lparr>query = [], suggestions = [], weather = None, loading = False, aiLoading = False,
      analysis = JNull, quickSummary = [], theme = ''from-sky-200 via-blue-100 to-white'',
      isNightMode = False, error = None, console = [], unhandledRejections = []\<rparr>"

section \<open>Example inputs\<close>

text \<open>A host that prints the date part and the clock part of an ISO timestamp.\<close>

definition isoHost :: host where
  "isoHost = \<lparr>hourLabel = drop 11, weekdayLabel = take 10, clockLabel = drop 11\<rparr>"

text \<open>
  A payload cut short by the provider: ten hourly entries, three daily entries, and a
  relative humidity of 55.5 percent.
\<close>

definition truncatedPayload :: payload where
  "truncatedPayload =
     \<lparr>raw_current =
        \<lparr>cur_temperature_2m = Finite (183 / 10),
         cur_relative_humidity_2m = Finite (111 / 2),
         cur_apparent_temperature = Finite (86 / 5),
         cur_weather_code = Finite 61,
         cur_surface_pressure = Finite (10132 / 10),
         cur_wind_speed_10m = Finite (62 / 5)\<rparr>,
      raw_hourly =
        \<lparr>hourly_time =
           map ascii
             [''2024-05-01T00:00'', ''2024-05-01T01:00'', ''2024-05-01T02:00'',
              ''2024-05-01T03:00'', ''2024-05-01T04:00'', ''2024-05-01T05:00'',
              ''2024-05-01T06:00'', ''2024-05-01T07:00'', ''2024-05-01T08:00'',
              ''2024-05-01T09:00''],
         hourly_temperature_2m =
           [Finite 12, Finite (23 / 2), Finite 11, Finite (21 / 2), Finite 10,
            Finite (21 / 2), Finite 12, Finite 14, Finite (31 / 2), Finite 17]\<rparr>,
      raw_daily =
        \<lparr>daily_time = map ascii [''2024-05-01'', ''2024-05-02'', ''2024-05-03''],
         daily_weather_code = [Finite 61, Finite 3, Finite 0],
         daily_temperature_2m_max = [Finite (96 / 5), Finite (41 / 2), Finite 22],
         daily_temperature_2m_min = [Finite (51 / 5), Finite 11, Finite (25 / 2)],
         daily_sunrise = map ascii [''2024-05-01T05:48'', ''2024-05-02T05:47'', ''2024-05-03T05:46''],
         daily_sunset = map ascii [''2024-05-01T18:27'', ''2024-05-02T18:28'', ''2024-05-03T18:29''],
         daily_uv_index_max = [Finite (13 / 2), Finite 7, Finite (15 / 2)]\<rparr>\<rparr>"

text \<open>The same payload with the six daily entries the request asks for.\<close>

definition sixDayPayload :: payload where
  "sixDayPayload =
     truncatedPayload
       \<lparr>raw_daily :=
          \<lparr>daily_time = map ascii [''2024-05-01'', ''2024-05-02'', ''2024-05-03'',
                         ''2024-05-04'', ''2024-05-05'', ''2024-05-06''],
           daily_weather_code = [Finite 61, Finite 3, Finite 0, Finite 95, Finite 2, Finite 45],
           daily_temperature_2m_max =
             [Finite (96 / 5), Finite (41 / 2), Finite 22, Finite 19, Finite (35 / 2), Finite 18],
           daily_temperature_2m_min =
             [Finite (51 / 5), Finite 11, Finite (25 / 2), Finite 12, Finite 9, Finite (19 / 2)],
           daily_sunrise = map ascii [''2024-05-01T05:48'', ''2024-05-02T05:47'', ''2024-05-03T05:46'',
                            ''2024-05-04T05:45'', ''2024-05-05T05:44'', ''2024-05-06T05:43''],
           daily_sunset = map ascii [''2024-05-01T18:27'', ''2024-05-02T18:28'', ''2024-05-03T18:29'',
                           ''2024-05-04T18:30'', ''2024-05-05T18:31'', ''2024-05-06T18:32''],
           daily_uv_index_max =
             [Finite (13 / 2), Finite 7, Finite (15 / 2), Finite 4, Finite 6, Finite 5]\<rparr>\<rparr>"

definition tokyo :: coordinates where
  "tokyo =
     \<lparr>loc_lat = Some (Finite (3569 / 100)), loc_lng = Some (Finite (13969 / 100)),
      loc_city = ascii ''Tokyo'', loc_country = ascii ''Tokyo, Japan''\<rparr>"

text \<open>
  A world in which geocoding knows Tokyo and Paris and nothing else, the forecast provider
  answers with the six-day payload, and the clock shows three in the afternoon.
\<close>

definition exampleGeo :: "jsstring \<Rightarrow> geo_response" where
  "exampleGeo q =
     (if q = ascii ''Tokyo'' then
        GeoResults [\<lparr>item_name = ascii ''Tokyo'', item_admin1 = Some (ascii ''Tokyo''),
                     item_country = Some (ascii ''Japan''),
                     item_latitude = Some (Finite (3569 / 100)),
                     item_longitude = Some (Finite (13969 / 100))\<rparr>]
      else if q = ascii ''Paris, France'' then
        GeoResults [\<lparr>item_name = ascii ''Paris'', item_admin1 = Some (ascii ''Ile-de-France''),
                     item_country = Some (ascii ''France''),
                     item_latitude = Some (Finite (977 / 20)),
                     item_longitude = Some (Finite (47 / 20))\<rparr>]
      else GeoResultsFalsy)"

definition exampleWorld :: world where
  "exampleWorld =
     \<lparr>geocoding = exampleGeo,
      forecasting = (\<lambda>la lo. FcPayload sixDayPayload),
      clockHour = 15,
      formats = isoHost\<rparr>"

text \<open>The snapshot of that world for Tokyo.\<close>

definition tokyoWeather :: WeatherData where
  "tokyoWeather = mapToInternalFormat isoHost tokyo 15 sixDayPayload"

section \<open>The two loops as list operations\<close>

text \<open>
  The hourly loop appends, for the positions from \<open>i\<close> up to \<open>stop\<close> that lie inside the time
  series and hold a non-empty time, the entry of that position, in order.
\<close>

lemma hourlyLoop_filter:
  "hourlyLoop H hr i stop acc =
     acc @ map (\<lambda>j. hourlyEntry H hr (hourly_time hr ! j) j)
             (filter (\<lambda>j. hourly_time hr ! j \<noteq> []) [i ..< min stop (length (hourly_time hr))])"
proof (induction H hr i stop acc rule: hourlyLoop.induct)
  case (1 H hr i stop acc)
  let ?n = "length (hourly_time hr)"
  let ?acc' = "case js_index (hourly_time hr) i of
                 None \<Rightarrow> acc
               | Some t \<Rightarrow> if t \<noteq> [] then acc @ [hourlyEntry H hr t i] else acc"
  show ?case
  proof (cases "i < stop")
    case False
    then show ?thesis by (subst hourlyLoop.simps) simp
  next
    case True
    have step: "hourlyLoop H hr i stop acc = hourlyLoop H hr (i + 1) stop ?acc'"
      using True by (subst hourlyLoop.simps) simp
    have ih: "hourlyLoop H hr (i + 1) stop ?acc' =
                ?acc' @ map (\<lambda>j. hourlyEntry H hr (hourly_time hr ! j) j)
                          (filter (\<lambda>j. hourly_time hr ! j \<noteq> []) [i + 1 ..< min stop ?n])"
      by (rule "1.IH" [OF True])
    show ?thesis
    proof (cases "i < ?n")
      case inside: True
      have "[i ..< min stop ?n] = i # [i + 1 ..< min stop ?n]"
        using True inside by (simp add: upt_conv_Cons)
      then show ?thesis
        unfolding step ih using inside by (simp add: js_index_def)
    next
      case outside: False
      then have "[i ..< min stop ?n] = []" and "[i + 1 ..< min stop ?n] = []"
        by simp_all
      then show ?thesis
        unfolding step ih using outside by (simp add: js_index_def)
    qed
  qed
qed

text \<open>The daily loop appends the entries of the positions from \<open>i\<close> up to 5, whatever they hold.\<close>

lemma dailyLoop_map:
  "dailyLoop H dr i acc = acc @ map (dailyEntry H dr) [i ..< 5]"
proof (induction H dr i acc rule: dailyLoop.induct)
  case (1 H dr i acc)
  show ?case
  proof (cases "i < 5")
    case True
    have step: "dailyLoop H dr i acc = dailyLoop H dr (i + 1) (acc @ [dailyEntry H dr i])"
      using True by (subst dailyLoop.simps) simp
    have "[i ..< 5] = i # [i + 1 ..< 5]"
      using True by (simp only: upt_conv_Cons Suc_eq_plus1)
    then have "acc @ map (dailyEntry H dr) [i ..< 5]
                 = (acc @ [dailyEntry H dr i]) @ map (dailyEntry H dr) [i + 1 ..< 5]"
      by (simp only: list.map append_assoc append_Cons append_Nil)
    then show ?thesis
      using step "1.IH" [OF True] by (simp only:)
  next
    case False
    then show ?thesis by (subst dailyLoop.simps) simp
  qed
qed

lemma upt_0_5: "[0 ..< 5] = [0, 1, 2, 3, 4::nat]"
  by (simp add: upt_rec)

lemma hourly_of_mapToInternalFormat:
  "hourly (mapToInternalFormat H loc h data) = hourlyLoop H (raw_hourly data) h (h + 24) []"
  by (simp add: mapToInternalFormat_def Let_def)

lemma daily_of_mapToInternalFormat:
  "daily (mapToInternalFormat H loc h data) = map (dailyEntry H (raw_daily data)) [0, 1, 2, 3, 4]"
  by (simp add: mapToInternalFormat_def Let_def dailyLoop_map upt_0_5)

text \<open>The daily series of a snapshot has five entries for every payload.\<close>

lemma daily_always_five: "length (daily (mapToInternalFormat H loc h data)) = 5"
  by (simp add: daily_of_mapToInternalFormat)

text \<open>Which fields of the snapshot are rounded: all numeric ones but the humidity.\<close>

lemma display_values:
  "currentTemp (mapToInternalFormat H loc h data) = Math_round (cur_temperature_2m (raw_current data))"
  "feelsLike (mapToInternalFormat H loc h data) = Math_round (cur_apparent_temperature (raw_current data))"
  "windSpeed (mapToInternalFormat H loc h data) = Math_round (cur_wind_speed_10m (raw_current data))"
  "pressure (mapToInternalFormat H loc h data) = Math_round (cur_surface_pressure (raw_current data))"
  "uvIndex (mapToInternalFormat H loc h data) =
     round_undefined (js_index (daily_uv_index_max (raw_daily data)) 0)"
  "humidity (mapToInternalFormat H loc h data) = cur_relative_humidity_2m (raw_current data)"
  by (simp_all add: mapToInternalFormat_def Let_def)

lemma Math_round_integer: "isInteger (Math_round (Finite q))"
  by simp

section \<open>Splitting and searching\<close>

lemma split_no_separator: "sep \<notin> set a \<Longrightarrow> split sep a = [a]"
  by (induction a) auto

lemma split_at_separator: "sep \<notin> set a \<Longrightarrow> split sep (a @ sep # b) = a # split sep b"
  by (induction a) auto

lemma split_two_segments:
  assumes "sep \<notin> set a" and "sep \<notin> set b"
  shows "split sep (a @ sep # b) = [a, b]"
  using assms by (simp add: split_at_separator split_no_separator)

lemma searchCity_returns: "\<exists>evs results. searchCity geo q = (evs, Inr results)"
  by (simp add: searchCity_def split: prod.splits sum.splits)

lemma searchBranch_eq:
  "searchBranch geo s =
     (CallSearchCity s # fst (searchCity geo s),
      (case snd (searchCity geo s) of
         Inl e \<Rightarrow> Inl e
       | Inr [] \<Rightarrow> Inl CityNotFound
       | Inr (first # rest) \<Rightarrow>
           Inr \<lparr>loc_lat = lat first, loc_lng = lng first,
                loc_city = name first, loc_country = location first\<rparr>))"
  by (simp add: searchBranch_def split: prod.splits sum.splits list.splits)

lemma not_pair_searches:
  "\<not> isCoordinatePair s \<Longrightarrow> determineCoordinates geo s = searchBranch geo s"
  by (auto simp add: isCoordinatePair_def determineCoordinates_def Let_def)

lemma searchCity_empty_on_failure:
  assumes "geo q = GeoResultsFalsy \<or> geo q = GeoFetchRejected \<or> geo q = GeoBodyNotJson
             \<or> geo q = GeoResultsUnusable \<or> geo q = GeoResults []"
  shows "snd (searchCity geo q) = Inr []"
  using assms by (auto simp add: searchCity_def searchCity_try_def)

text \<open>A request is sent exactly for the well-formed queries of two code units or more.\<close>

lemma searchCity_request:
  "GeocodingRequest q \<in> set (fst (searchCity geo q)) \<longleftrightarrow> 2 \<le> length q \<and> isWellFormed q"
  by (cases "geo q") (auto simp add: searchCity_def searchCity_try_def)

text \<open>When the test of step 1 holds, no search is made.\<close>

lemma pair_skips_search:
  assumes "isCoordinatePair s"
  shows "\<exists>la lo. determineCoordinates geo s =
           ([], Inr \<lparr>loc_lat = Some la, loc_lng = Some lo,
                     loc_city = ascii ''Current Location'', loc_country = []\<rparr>) \<and>
           \<not> isNaN la \<and> \<not> isNaN lo"
  using assms by (auto simp add: isCoordinatePair_def determineCoordinates_def Let_def)

text \<open>
  The no-break space and the other space separators are skipped like the space, so that
  coordinates separated by a comma and a no-break space pass the test of step 1.
\<close>

lemma trim_unicode_space:
  "trim ([0x00A0, 0x2003] @ ascii ''40.71'' @ [0xFEFF, 0x2029]) = ascii ''40.71''"
  by code_simp

lemma no_break_space_pair:
  "isCoordinatePair (ascii ''40.71,'' @ [0x00A0] @ ascii ''-74.01'')"
  by code_simp

section \<open>A rejected summary in fetchWeather\<close>

lemma getQuickSummary_rejects: "ai w = AiRejected \<Longrightarrow> getQuickSummary ai w = Inl TransportError"
  by (simp add: getQuickSummary_def)

lemma updateTheme_keeps:
  "quickSummary (updateTheme c n st) = quickSummary st"
  "unhandledRejections (updateTheme c n st) = unhandledRejections st"
  "weather (updateTheme c n st) = weather st"
  "error (updateTheme c n st) = error st"
  "loading (updateTheme c n st) = loading st"
  by (simp_all add: updateTheme_def Let_def)

lemma fetchWeather_summary_rejected:
  assumes "snd (getWeatherData W place) = Inr data" and "getQuickSummary ai data = Inl e"
  shows "quickSummary (fetchWeather W ai place st) = quickSummary st"
    and "unhandledRejections (fetchWeather W ai place st) = unhandledRejections st @ [e]"
    and "weather (fetchWeather W ai place st) = Some data"
    and "error (fetchWeather W ai place st) = None"
    and "\<not> loading (fetchWeather W ai place st)"
  using assms by (simp_all add: fetchWeather_def Let_def updateTheme_keeps)

section \<open>The quick summary\<close>

text \<open>
  Claim C1: when the quick-summary operation fails, the caller receives an empty string as the
  summary rather than an error, and the failure never blocks or fails the main snapshot flow.

  The code does not do the first part. \<open>getQuickSummary\<close> has no \<open>try\<close> around the provider
  call, so a failing call rejects its promise, and \<open>fetchWeather\<close> attaches no rejection
  handler. Below, the provider rejects while the snapshot for Tokyo is fetched from a state
  that still shows the summary of the previous place: \<open>getQuickSummary\<close> yields the error and
  not the empty string, the rejection is left unhandled, and the stored summary stays the one
  of the previous place. The second part holds there: the snapshot is stored, no error is
  shown and the loading flag is cleared.
\<close>

theorem quick_summary_rejection_reaches_caller:
  "getQuickSummary (\<lambda>w. AiRejected) tokyoWeather = Inl TransportError \<and>
   quickSummary (fetchWeather exampleWorld (\<lambda>w. AiRejected) (ascii ''Tokyo'')
                   (initialState\<lparr>quickSummary := ascii ''Mild and breezy''\<rparr>))
     = ascii ''Mild and breezy'' \<and>
   unhandledRejections (fetchWeather exampleWorld (\<lambda>w. AiRejected) (ascii ''Tokyo'')
                   (initialState\<lparr>quickSummary := ascii ''Mild and breezy''\<rparr>)) = [TransportError] \<and>
   weather (fetchWeather exampleWorld (\<lambda>w. AiRejected) (ascii ''Tokyo'')
                   (initialState\<lparr>quickSummary := ascii ''Mild and breezy''\<rparr>)) = Some tokyoWeather \<and>
   error (fetchWeather exampleWorld (\<lambda>w. AiRejected) (ascii ''Tokyo'')
                   (initialState\<lparr>quickSummary := ascii ''Mild and breezy''\<rparr>)) = None \<and>
   \<not> loading (fetchWeather exampleWorld (\<lambda>w. AiRejected) (ascii ''Tokyo'')
                   (initialState\<lparr>quickSummary := ascii ''Mild and breezy''\<rparr>))"
proof -
  have loc: "determineCoordinates exampleGeo (ascii ''Tokyo'') =
               ([CallSearchCity (ascii ''Tokyo''), GeocodingRequest (ascii ''Tokyo'')], Inr tokyo)"
    by code_simp
  have data: "snd (getWeatherData exampleWorld (ascii ''Tokyo'')) = Inr tokyoWeather"
    by (simp add: getWeatherData_def exampleWorld_def loc fetchForecast_def tokyo_def tokyoWeather_def)
  have summary: "getQuickSummary (\<lambda>w. AiRejected) tokyoWeather = Inl TransportError"
    by (simp add: getQuickSummary_def)
  show ?thesis
    by (simp add: fetchWeather_def data summary Let_def updateTheme_def initialState_def)
qed

section \<open>Mapping the payload\<close>

text \<open>
  Claim C2: the mapping never fails; when an hourly or daily source series is shorter than the
  requested window, the corresponding output series is truncated, and a snapshot is still
  produced.

  The daily loop has no test of the kind the hourly loop has. On a payload with ten hourly
  and three daily entries, mapped at three in the night, the hourly series is cut to the seven
  entries that are left, while the daily loop still pushes five: the last two are built from
  \<open>undefined\<close> and read \<open>Invalid Date\<close>, \<open>NaN\<close>, \<open>NaN\<close>, \<open>Unknown\<close>. Nothing is thrown and a
  snapshot is produced, but the daily series is padded, not truncated.
\<close>

theorem short_daily_series_not_truncated:
  "length (hourly_time (raw_hourly truncatedPayload)) = 10 \<and>
   length (hourly (mapToInternalFormat isoHost tokyo 3 truncatedPayload)) = 7 \<and>
   length (daily_time (raw_daily truncatedPayload)) = 3 \<and>
   length (daily (mapToInternalFormat isoHost tokyo 3 truncatedPayload)) = 5 \<and>
   daily (mapToInternalFormat isoHost tokyo 3 truncatedPayload) ! 3 =
     \<lparr>day = ascii ''Invalid Date'', high = NaN, low = NaN,
       condition_day = ''Unknown''\<rparr> \<and>
   daily (mapToInternalFormat isoHost tokyo 3 truncatedPayload) ! 4 =
     \<lparr>day = ascii ''Invalid Date'', high = NaN, low = NaN,
       condition_day = ''Unknown''\<rparr>"
proof -
  have "dailyEntry isoHost (raw_daily truncatedPayload) 3 =
          \<lparr>day = ascii ''Invalid Date'', high = NaN, low = NaN,
       condition_day = ''Unknown''\<rparr>"
    by (simp add: dailyEntry_def truncatedPayload_def js_index_def dateLabel_def
        round_undefined_def wmoToCondition_def)
  moreover have "dailyEntry isoHost (raw_daily truncatedPayload) 4 =
          \<lparr>day = ascii ''Invalid Date'', high = NaN, low = NaN,
       condition_day = ''Unknown''\<rparr>"
    by (simp add: dailyEntry_def truncatedPayload_def js_index_def dateLabel_def
        round_undefined_def wmoToCondition_def)
  moreover have "length (daily_time (raw_daily truncatedPayload)) = 3"
    by (simp add: truncatedPayload_def)
  moreover have "length (hourly_time (raw_hourly truncatedPayload)) = 10"
    by (simp add: truncatedPayload_def)
  moreover have "length (hourly (mapToInternalFormat isoHost tokyo 3 truncatedPayload)) = 7"
    by code_simp
  ultimately show ?thesis
    by (simp add: daily_of_mapToInternalFormat)
qed

text \<open>
  Claim C3: the hourly window has at most 24 entries, never reads past the end of the source
  series, and its length satisfies \<open>len(result) \<le> min(24, len(source) - startIndex)\<close>.

  As a formula over the integers the bound fails when the start index lies beyond the end of
  the series: with ten hourly entries and the clock at 15 the window is empty, and
  \<open>0 \<le> min(24, 10 - 15)\<close> is false.
\<close>

theorem hourly_window_bound_counterexample:
  "\<not> int (length (hourly (mapToInternalFormat isoHost tokyo 15 truncatedPayload)))
       \<le> min 24 (int (length (hourly_time (raw_hourly truncatedPayload))) - int 15)"
proof -
  have "length (hourly (mapToInternalFormat isoHost tokyo 15 truncatedPayload)) = 0"
    by code_simp
  moreover have "length (hourly_time (raw_hourly truncatedPayload)) = 10"
    by (simp add: truncatedPayload_def)
  ultimately show ?thesis by simp
qed

text \<open>
  Claim C3, amended: the hourly window consists of the entries of the positions from the start
  index up to 24 further that lie inside the time series and hold a non-empty time, in order;
  so no position past the end of the series contributes, and
  \<open>len(result) \<le> min(24, max(0, len(source) - startIndex))\<close>.
\<close>

theorem hourly_window_bound:
  "hourly (mapToInternalFormat H loc h data) =
     map (\<lambda>i. hourlyEntry H (raw_hourly data) (hourly_time (raw_hourly data) ! i) i)
       (filter (\<lambda>i. hourly_time (raw_hourly data) ! i \<noteq> [])
          [h ..< min (h + 24) (length (hourly_time (raw_hourly data)))]) \<and>
   int (length (hourly (mapToInternalFormat H loc h data)))
     \<le> min 24 (max 0 (int (length (hourly_time (raw_hourly data))) - int h))"
proof -
  let ?n = "length (hourly_time (raw_hourly data))"
  let ?P = "\<lambda>i. hourly_time (raw_hourly data) ! i \<noteq> []"
  have eq: "hourly (mapToInternalFormat H loc h data) =
     map (\<lambda>i. hourlyEntry H (raw_hourly data) (hourly_time (raw_hourly data) ! i) i)
       (filter ?P [h ..< min (h + 24) ?n])"
    by (simp add: hourly_of_mapToInternalFormat hourlyLoop_filter)
  have "length (filter ?P [h ..< min (h + 24) ?n]) \<le> length [h ..< min (h + 24) ?n]"
    by (rule length_filter_le)
  also have "\<dots> = min (h + 24) ?n - h" by simp
  finally have "length (hourly (mapToInternalFormat H loc h data)) \<le> min (h + 24) ?n - h"
    by (simp add: eq)
  then have "int (length (hourly (mapToInternalFormat H loc h data)))
     \<le> min 24 (max 0 (int ?n - int h))"
    by linarith
  with eq show ?thesis by (intro conjI) (assumption+)
qed

text \<open>
  Claim C4: for a daily source series with at least 5 entries the daily window has exactly 5
  entries, taken from the source positions 0 to 4, independent of the hour at which the
  mapping runs.
\<close>

theorem daily_window_fixed:
  assumes "5 \<le> length (daily_time (raw_daily data))"
    and "5 \<le> length (daily_temperature_2m_max (raw_daily data))"
    and "5 \<le> length (daily_temperature_2m_min (raw_daily data))"
    and "5 \<le> length (daily_weather_code (raw_daily data))"
  shows "length (daily (mapToInternalFormat H loc h data)) = 5 \<and>
         daily (mapToInternalFormat H loc h data) =
           map (\<lambda>i. \<lparr>day = weekdayLabel H (daily_time (raw_daily data) ! i),
                      high = Math_round (daily_temperature_2m_max (raw_daily data) ! i),
                      low = Math_round (daily_temperature_2m_min (raw_daily data) ! i),
                      condition_day =
                        wmoToCondition (Some (daily_weather_code (raw_daily data) ! i))\<rparr>)
               [0, 1, 2, 3, 4] \<and>
         daily (mapToInternalFormat H loc h' data) = daily (mapToInternalFormat H loc h data)"
proof -
  have entry: "dailyEntry H (raw_daily data) i =
      \<lparr>day = weekdayLabel H (daily_time (raw_daily data) ! i),
       high = Math_round (daily_temperature_2m_max (raw_daily data) ! i),
       low = Math_round (daily_temperature_2m_min (raw_daily data) ! i),
       condition_day = wmoToCondition (Some (daily_weather_code (raw_daily data) ! i))\<rparr>"
    if "i < 5" for i
    using that assms
    by (simp add: dailyEntry_def js_index_def dateLabel_def round_undefined_def)
  show ?thesis
    by (simp add: daily_of_mapToInternalFormat entry)
qed

text \<open>The six-day payload at three in the night and at ten in the evening.\<close>

theorem daily_window_fixed_witness:
  "5 \<le> length (daily_time (raw_daily sixDayPayload)) \<and>
   5 \<le> length (daily_temperature_2m_max (raw_daily sixDayPayload)) \<and>
   5 \<le> length (daily_temperature_2m_min (raw_daily sixDayPayload)) \<and>
   5 \<le> length (daily_weather_code (raw_daily sixDayPayload)) \<and>
   length (daily (mapToInternalFormat isoHost tokyo 3 sixDayPayload)) = 5 \<and>
   daily (mapToInternalFormat isoHost tokyo 22 sixDayPayload) =
     daily (mapToInternalFormat isoHost tokyo 3 sixDayPayload)"
proof -
  have a: "5 \<le> length (daily_time (raw_daily sixDayPayload))"
    by (simp add: sixDayPayload_def)
  have b: "5 \<le> length (daily_temperature_2m_max (raw_daily sixDayPayload))"
    by (simp add: sixDayPayload_def)
  have c: "5 \<le> length (daily_temperature_2m_min (raw_daily sixDayPayload))"
    by (simp add: sixDayPayload_def)
  have d: "5 \<le> length (daily_weather_code (raw_daily sixDayPayload))"
    by (simp add: sixDayPayload_def)
  show ?thesis
    using daily_window_fixed [OF a b c d, of isoHost tokyo 3 22] a b c d
    by (intro conjI) (elim conjE, assumption)+
qed

text \<open>
  Claim C5: every numeric display value of the snapshot (current temperature, feels-like
  temperature, humidity, wind speed, pressure, UV index) is an integer, rounded when the
  payload is mapped.

  The humidity is the one value copied without \<open>Math.round\<close>: a relative humidity of 55.5 in
  the payload is 55.5 in the snapshot, where rounding would give 56.
\<close>

theorem humidity_not_rounded:
  "cur_relative_humidity_2m (raw_current truncatedPayload) = Finite (111 / 2) \<and>
   humidity (mapToInternalFormat isoHost tokyo 15 truncatedPayload) = Finite (111 / 2) \<and>
   \<not> isInteger (humidity (mapToInternalFormat isoHost tokyo 15 truncatedPayload)) \<and>
   Math_round (Finite (111 / 2)) = Finite 56"
proof -
  have c: "cur_relative_humidity_2m (raw_current truncatedPayload) = Finite (111 / 2)"
    by (simp add: truncatedPayload_def)
  have h: "humidity (mapToInternalFormat isoHost tokyo 15 truncatedPayload) =
             cur_relative_humidity_2m (raw_current truncatedPayload)"
    by (simp add: mapToInternalFormat_def Let_def)
  have n: "\<not> isInteger (Finite (111 / 2))"
    by code_simp
  have r: "Math_round (Finite (111 / 2)) = Finite 56"
    by simp
  show ?thesis
    unfolding h c by (intro conjI refl n r)
qed

section \<open>Resolving the location\<close>

text \<open>
  Claim C6: for an input of the form \<open><float>, <float>\<close>, that is two segments around one
  comma which both parse as numbers, no geocoding call is made, the display name is
  \<open>Current Location\<close> and the coordinates are the parsed pair.
\<close>

theorem coordinate_pair_skips_geocoding:
  assumes "of_char CHR '','' \<notin> set a" and "of_char CHR '','' \<notin> set b"
    and "\<not> isNaN (parseFloat (trim a))" and "\<not> isNaN (parseFloat (trim b))"
  shows "determineCoordinates geo (a @ ascii '','' @ b) =
           ([], Inr \<lparr>loc_lat = Some (parseFloat (trim a)),
                     loc_lng = Some (parseFloat (trim b)),
                     loc_city = ascii ''Current Location'',
                     loc_country = []\<rparr>)"
proof -
  have comma: "ascii '','' = [of_char CHR '','']"
    by (simp add: ascii_def)
  have parts: "map trim (split (of_char CHR '','') (a @ ascii '','' @ b)) = [trim a, trim b]"
    using split_two_segments [OF assms(1) assms(2)] by (simp add: comma)
  have has: "of_char CHR '','' \<in> set (a @ ascii '','' @ b)"
    by (simp add: comma)
  show ?thesis
    unfolding determineCoordinates_def parts Let_def
    using assms(3) assms(4) has
    by (simp add: js_index_def parseFloat_undefined_def)
qed

text \<open>The coordinates of New York, with a geocoding provider that is down.\<close>

theorem coordinate_pair_skips_geocoding_witness:
  "of_char CHR '','' \<notin> set (ascii ''40.71'') \<and>
   of_char CHR '','' \<notin> set (ascii '' -74.01'') \<and>
   \<not> isNaN (parseFloat (trim (ascii ''40.71''))) \<and>
   \<not> isNaN (parseFloat (trim (ascii '' -74.01''))) \<and>
   determineCoordinates (\<lambda>q. GeoFetchRejected) (ascii ''40.71, -74.01'') =
     ([], Inr \<lparr>loc_lat = Some (Finite (4071 / 100)),
               loc_lng = Some (Finite (- (7401 / 100))),
               loc_city = ascii ''Current Location'',
               loc_country = []\<rparr>)"
proof -
  have c1: "of_char CHR '','' \<notin> set (ascii ''40.71'')"
    by (simp add: ascii_def)
  have c2: "of_char CHR '','' \<notin> set (ascii '' -74.01'')"
    by (simp add: ascii_def)
  have v1: "parseFloat (trim (ascii ''40.71'')) = Finite (4071 / 100)"
    by code_simp
  have v2: "parseFloat (trim (ascii '' -74.01'')) = Finite (- (7401 / 100))"
    by code_simp
  have n1: "\<not> isNaN (parseFloat (trim (ascii ''40.71'')))"
    by (simp add: v1 isNaN_def)
  have n2: "\<not> isNaN (parseFloat (trim (ascii '' -74.01'')))"
    by (simp add: v2 isNaN_def)
  have whole: "ascii ''40.71'' @ ascii '','' @ ascii '' -74.01'' = ascii ''40.71, -74.01''"
    by (simp add: ascii_def)
  have run: "determineCoordinates (\<lambda>q. GeoFetchRejected) (ascii ''40.71, -74.01'') =
     ([], Inr \<lparr>loc_lat = Some (Finite (4071 / 100)),
               loc_lng = Some (Finite (- (7401 / 100))),
               loc_city = ascii ''Current Location'',
               loc_country = []\<rparr>)"
    using coordinate_pair_skips_geocoding [OF c1 c2 n1 n2, of "\<lambda>q. GeoFetchRejected"]
    by (simp only: whole v1 v2)
  show ?thesis
    by (intro conjI c1 c2 n1 n2 run)
qed

text \<open>
  Claim C7: for an input that is not a numeric coordinate pair, also one with a comma such as
  \<open>Paris, France\<close>, the location step calls the geocoding search and fails with the not-found
  error exactly when the list of candidates it gets is empty; otherwise it takes the name and
  the coordinates of the first candidate.

  The code does not do this for every such input. Its comment says that it checks whether the
  input is a \<open>lat, long\<close> string, but the check is made with \<open>parseFloat\<close>, which reads the
  longest numeric prefix of a segment and ignores what follows, and it looks at the first two
  segments only. The address \<open>1 Main St, 2nd Floor\<close> is no pair of numbers and still passes:
  whatever geocoding would answer, no search is made and the result is \<open>Current Location\<close>
  at latitude 1 and longitude 2. The same happens to \<open>12, 34, foo\<close>.
\<close>

theorem address_taken_for_coordinates:
  "determineCoordinates geo (ascii ''1 Main St, 2nd Floor'') =
     ([], Inr \<lparr>loc_lat = Some (Finite 1), loc_lng = Some (Finite 2),
               loc_city = ascii ''Current Location'', loc_country = []\<rparr>) \<and>
   determineCoordinates geo (ascii ''12, 34, foo'') =
     ([], Inr \<lparr>loc_lat = Some (Finite 12), loc_lng = Some (Finite 34),
               loc_city = ascii ''Current Location'', loc_country = []\<rparr>)"
proof -
  have has1: "of_char CHR '','' \<in> set (ascii ''1 Main St, 2nd Floor'')"
    by (simp add: ascii_def)
  have parts1: "map trim (split (of_char CHR '','') (ascii ''1 Main St, 2nd Floor'')) =
                  [ascii ''1 Main St'', ascii ''2nd Floor'']"
    by code_simp
  have a1: "parseFloat (ascii ''1 Main St'') = Finite 1"
    by code_simp
  have b1: "parseFloat (ascii ''2nd Floor'') = Finite 2"
    by code_simp
  have has2: "of_char CHR '','' \<in> set (ascii ''12, 34, foo'')"
    by (simp add: ascii_def)
  have parts2: "map trim (split (of_char CHR '','') (ascii ''12, 34, foo'')) =
                  [ascii ''12'', ascii ''34'', ascii ''foo'']"
    by code_simp
  have a2: "parseFloat (ascii ''12'') = Finite 12"
    by code_simp
  have b2: "parseFloat (ascii ''34'') = Finite 34"
    by code_simp
  have first: "determineCoordinates geo (ascii ''1 Main St, 2nd Floor'') =
     ([], Inr \<lparr>loc_lat = Some (Finite 1), loc_lng = Some (Finite 2),
               loc_city = ascii ''Current Location'', loc_country = []\<rparr>)"
    unfolding determineCoordinates_def parts1 Let_def
    using has1 by (simp add: js_index_def parseFloat_undefined_def a1 b1 isNaN_def)
  have second: "determineCoordinates geo (ascii ''12, 34, foo'') =
     ([], Inr \<lparr>loc_lat = Some (Finite 12), loc_lng = Some (Finite 34),
               loc_city = ascii ''Current Location'', loc_country = []\<rparr>)"
    unfolding determineCoordinates_def parts2 Let_def
    using has2 by (simp add: js_index_def parseFloat_undefined_def a2 b2 isNaN_def)
  show ?thesis
    by (intro conjI first second)
qed

text \<open>
  What the code does for the inputs that fail its test: it calls the search, which sends its
  request when the input is well formed and has two code units or more; it fails with the
  not-found error exactly when the search returns the empty list, and takes the first
  candidate otherwise.
\<close>

lemma failed_test_searches:
  assumes "\<not> isCoordinatePair s"
  shows "fst (determineCoordinates geo s) = CallSearchCity s # fst (searchCity geo s) \<and>
         (2 \<le> length s \<and> isWellFormed s
            \<longrightarrow> GeocodingRequest s \<in> set (fst (determineCoordinates geo s))) \<and>
         (snd (determineCoordinates geo s) = Inl CityNotFound
            \<longleftrightarrow> snd (searchCity geo s) = Inr []) \<and>
         (\<forall>first rest. snd (searchCity geo s) = Inr (first # rest) \<longrightarrow>
            snd (determineCoordinates geo s) =
              Inr \<lparr>loc_lat = lat first, loc_lng = lng first,
                   loc_city = name first, loc_country = location first\<rparr>)"
proof -
  obtain evs results where sc: "searchCity geo s = (evs, Inr results)"
    using searchCity_returns by blast
  have dc: "determineCoordinates geo s = searchBranch geo s"
    using assms by (rule not_pair_searches)
  have req: "2 \<le> length s \<and> isWellFormed s
               \<Longrightarrow> GeocodingRequest s \<in> set (fst (searchCity geo s))"
    by (simp add: searchCity_request)
  show ?thesis
    using req by (cases results) (auto simp add: dc searchBranch_eq sc)
qed

text \<open>\<open>Paris, France\<close> fails the test, since neither segment starts with a number.\<close>

lemma paris_france_searches:
  "\<not> isCoordinatePair (ascii ''Paris, France'') \<and>
   determineCoordinates exampleGeo (ascii ''Paris, France'') =
     ([CallSearchCity (ascii ''Paris, France''), GeocodingRequest (ascii ''Paris, France'')],
      Inr \<lparr>loc_lat = Some (Finite (977 / 20)), loc_lng = Some (Finite (47 / 20)),
           loc_city = ascii ''Paris'', loc_country = ascii ''Ile-de-France, France''\<rparr>)"
  by code_simp

section \<open>The deep analysis\<close>

text \<open>When the text of the response denotes a JSON value, that value is the result.\<close>

lemma getDeepAnalysis_passes_value:
  "ai w = AiResponse (Some (JsonText v)) \<Longrightarrow> getDeepAnalysis ai w = Inr v"
  by (simp add: getDeepAnalysis_def JSON_parse_def)

text \<open>
  Claim C8: when the response parses as JSON and lacks one of \<open>advice\<close>, \<open>outfit\<close>, \<open>details\<close>,
  or has it malformed, the analysis succeeds and the missing or malformed fields are empty
  strings in the result.

  The code does not do the second part. \<open>getDeepAnalysis\<close> is declared to return an
  \<open>AIAnalysisResult\<close>, three required strings, and asks the provider for that schema, but it
  returns what \<open>JSON.parse\<close> gives without a look at it. For a response with only \<open>advice\<close>,
  \<open>outfit\<close> and \<open>details\<close> of the result are \<open>undefined\<close>, not the empty string; for a
  response whose \<open>advice\<close> is an object, the result's \<open>advice\<close> is that object, which the
  analysis panel then tries to render as text.
\<close>

theorem deep_analysis_fields_not_defaulted:
  "getDeepAnalysis
     (\<lambda>w. AiResponse (Some (JsonText
        (JObject [(ascii ''advice'', JString (ascii ''Carry an umbrella''))]))))
     tokyoWeather =
     Inr (JObject [(ascii ''advice'', JString (ascii ''Carry an umbrella''))]) \<and>
   getProperty (JObject [(ascii ''advice'', JString (ascii ''Carry an umbrella''))])
     (ascii ''outfit'') = None \<and>
   getProperty (JObject [(ascii ''advice'', JString (ascii ''Carry an umbrella''))])
     (ascii ''details'') = None \<and>
   getDeepAnalysis
     (\<lambda>w. AiResponse (Some (JsonText
        (JObject [(ascii ''advice'', JObject [(ascii ''text'', JString (ascii ''Stay in''))]),
                  (ascii ''outfit'', JString (ascii ''Raincoat'')),
                  (ascii ''details'', JString (ascii ''Grey skies''))]))))
     tokyoWeather =
     Inr (JObject [(ascii ''advice'', JObject [(ascii ''text'', JString (ascii ''Stay in''))]),
                   (ascii ''outfit'', JString (ascii ''Raincoat'')),
                   (ascii ''details'', JString (ascii ''Grey skies''))])"
proof -
  have absent: "getProperty (JObject [(ascii ''advice'', JString (ascii ''Carry an umbrella''))])
                  (ascii ''outfit'') = None"
    by (simp add: getProperty_def ascii_def)
  have absent': "getProperty (JObject [(ascii ''advice'', JString (ascii ''Carry an umbrella''))])
                  (ascii ''details'') = None"
    by (simp add: getProperty_def ascii_def)
  show ?thesis
    by (intro conjI absent absent') (simp_all add: getDeepAnalysis_passes_value)
qed

text \<open>
  Claim C9: when the response cannot be parsed as the expected schema shape, malformed JSON
  for one, the analysis fails with an error; the caller logs the error, does not fail itself,
  and leaves the stored analysis as it was before the request, so that an absent analysis
  stays absent.

  This holds for a text that \<open>JSON.parse\<close> rejects (\<open>not_json_leaves_panel\<close> below). It does
  not hold for a text that is JSON of another shape: the parsed value is never compared with
  the schema. For the response \<open>42\<close> the analysis succeeds with the number 42, the handler
  stores it as the analysis, and nothing is logged.
\<close>

theorem other_shape_stored_as_analysis:
  "getDeepAnalysis (\<lambda>w. AiResponse (Some (JsonText (JNumber (Finite 42))))) tokyoWeather =
     Inr (JNumber (Finite 42)) \<and>
   analysis (initialState\<lparr>weather := Some tokyoWeather\<rparr>) = JNull \<and>
   analysis (handleDeepAnalysis (\<lambda>w. AiResponse (Some (JsonText (JNumber (Finite 42)))))
               (initialState\<lparr>weather := Some tokyoWeather\<rparr>)) = JNumber (Finite 42) \<and>
   console (handleDeepAnalysis (\<lambda>w. AiResponse (Some (JsonText (JNumber (Finite 42)))))
               (initialState\<lparr>weather := Some tokyoWeather\<rparr>)) = []"
proof -
  have res: "getDeepAnalysis (\<lambda>w. AiResponse (Some (JsonText (JNumber (Finite 42)))))
                 tokyoWeather = Inr (JNumber (Finite 42))"
    by (simp add: getDeepAnalysis_passes_value)
  show ?thesis
    by (simp add: res handleDeepAnalysis_def Let_def initialState_def)
qed

text \<open>
  The part of the claim that holds: a text that is not JSON makes the analysis fail, and the
  handler logs the error, clears the loading flag and changes nothing else.
\<close>

lemma not_json_leaves_panel:
  assumes "weather st = Some w" and "ai w = AiResponse (Some NotJson)"
  shows "getDeepAnalysis ai w = Inl SyntaxError \<and>
         handleDeepAnalysis ai st = st\<lparr>aiLoading := False, console := console st @ [SyntaxError]\<rparr> \<and>
         analysis (handleDeepAnalysis ai st) = analysis st \<and>
         (analysis st = JNull \<longrightarrow> analysis (handleDeepAnalysis ai st) = JNull)"
proof -
  have fails: "getDeepAnalysis ai w = Inl SyntaxError"
    using assms(2) by (simp add: getDeepAnalysis_def JSON_parse_def)
  have after: "handleDeepAnalysis ai st =
                 st\<lparr>aiLoading := False, console := console st @ [SyntaxError]\<rparr>"
    using assms(1) by (simp add: handleDeepAnalysis_def fails Let_def)
  show ?thesis
    by (simp add: fails after)
qed

section \<open>The city search\<close>

text \<open>
  Claim C10: \<open>searchCity\<close> never throws; it returns the empty list for a query shorter than
  two characters, for a response without a results array, and when the transport or the JSON
  parsing fails. So an outage of the geocoding provider gives the location step the same
  not-found error as a query that matches nothing.
\<close>

theorem searchCity_never_throws:
  "(\<exists>evs results. searchCity geo q = (evs, Inr results)) \<and>
   (length q < 2 \<longrightarrow> searchCity geo q = ([], Inr [])) \<and>
   (geo q = GeoResultsFalsy \<or> geo q = GeoFetchRejected \<or> geo q = GeoBodyNotJson
      \<longrightarrow> snd (searchCity geo q) = Inr []) \<and>
   (\<not> isCoordinatePair q \<longrightarrow>
    (geo q = GeoFetchRejected \<or> geo q = GeoBodyNotJson) \<longrightarrow>
    (noMatch q = GeoResultsFalsy \<or> noMatch q = GeoResults []) \<longrightarrow>
      snd (determineCoordinates geo q) = Inl CityNotFound \<and>
      snd (determineCoordinates noMatch q) = snd (determineCoordinates geo q))"
proof -
  have short: "length q < 2 \<longrightarrow> searchCity geo q = ([], Inr [])"
    by (simp add: searchCity_def)
  have failed: "geo q = GeoResultsFalsy \<or> geo q = GeoFetchRejected \<or> geo q = GeoBodyNotJson
      \<longrightarrow> snd (searchCity geo q) = Inr []"
    using searchCity_empty_on_failure [of geo q] by blast
  have same: "snd (determineCoordinates geo q) = Inl CityNotFound \<and>
      snd (determineCoordinates noMatch q) = snd (determineCoordinates geo q)"
    if "\<not> isCoordinatePair q"
      and "geo q = GeoFetchRejected \<or> geo q = GeoBodyNotJson"
      and "noMatch q = GeoResultsFalsy \<or> noMatch q = GeoResults []"
  proof -
    have "snd (searchCity geo q) = Inr []"
      using that(2) searchCity_empty_on_failure [of geo q] by blast
    moreover have "snd (searchCity noMatch q) = Inr []"
      using that(3) searchCity_empty_on_failure [of noMatch q] by blast
    ultimately show ?thesis
      using that(1) by (simp add: not_pair_searches searchBranch_eq)
  qed
  show ?thesis
    using searchCity_returns [of geo q] short failed same by blast
qed

text \<open>A one-letter query, and Tokyo with a provider that is down or finds nothing.\<close>

theorem searchCity_never_throws_witness:
  "searchCity (\<lambda>q. GeoFetchRejected) (ascii ''a'') = ([], Inr []) \<and>
   snd (searchCity (\<lambda>q. GeoFetchRejected) (ascii ''Tokyo'')) = Inr [] \<and>
   \<not> isCoordinatePair (ascii ''Tokyo'') \<and>
   snd (determineCoordinates (\<lambda>q. GeoFetchRejected) (ascii ''Tokyo'')) = Inl CityNotFound \<and>
   snd (determineCoordinates (\<lambda>q. GeoResults []) (ascii ''Tokyo'')) = Inl CityNotFound"
proof -
  have t: "\<not> isCoordinatePair (ascii ''Tokyo'')"
    by (simp add: isCoordinatePair_def ascii_def)
  have l: "length (ascii ''a'') < 2"
    by (simp add: ascii_def)
  show ?thesis
    using searchCity_never_throws [of "\<lambda>q. GeoFetchRejected" "ascii ''a''"]
          searchCity_never_throws
            [of "\<lambda>q. GeoFetchRejected" "ascii ''Tokyo''" "\<lambda>q. GeoResults []"] t l
    by simp
qed

end
